theory Spec2Isabelle
  imports Main
begin

section \<open>The dependency fetcher of offlineDependencies.py\<close>

text \<open>
  The script creates the directory \<^verbatim>\<open>libs\<close> when it is absent and walks the
  dictionary \<^verbatim>\<open>LIBRARIES\<close>: an entry whose target path exists is skipped, any other
  entry is requested with one HTTP GET and, on status 200, written to its target in
  binary mode. Every exception of the request, of the open and of the write is caught
  by the handler of the entry; an exception of \<^verbatim>\<open>os.makedirs\<close> is not caught and ends
  the run.

  The embedding passes the state of the outside world explicitly: the filesystem, and
  one chronological trace of the effects the script has had (lines printed, requests
  issued, directories made, files written). What the outside world answers is a
  parameter, the environment: the result of every GET and the fault, if any, of every
  write and of every attempt to make a directory. All of them may depend on the
  requests issued before, so an environment covers servers and disks whose behaviour
  changes over time.
\<close>

subsection \<open>Data\<close>

type_synonym path = string
type_synonym bytes = string

text \<open>A path names a directory or a regular file with its contents.\<close>

datatype node = Dir | File bytes

text \<open>
  The exceptions the library calls of the script raise. All of them are instances of
  Python's \<^verbatim>\<open>Exception\<close>: \<^verbatim>\<open>OSError errno strerror filename\<close> for the filesystem
  (with its subclasses \<^verbatim>\<open>FileExistsError\<close>, \<^verbatim>\<open>NotADirectoryError\<close> and so on),
  \<^verbatim>\<open>RequestException message\<close> for everything \<^verbatim>\<open>requests.get\<close> raises (connection
  errors, timeouts, malformed URLs). An \<^verbatim>\<open>OSError\<close> carries a file name when the call
  that raised it was given a path (\<^verbatim>\<open>open\<close>, \<^verbatim>\<open>os.makedirs\<close>) and none when it was
  given a file object (\<^verbatim>\<open>f.write\<close>).
\<close>

datatype exn = OSError nat string "path option" | RequestException string

record response =
  status_code :: int
  content :: bytes

datatype http_result = Returns response | GetRaises exn

text \<open>
  What happens to a write the filesystem itself allows: nothing, the open raises, or
  the write raises after the first \<open>n\<close> bytes have reached the file.
\<close>

datatype write_fault = NoFault | OpenRaises exn | WriteRaises nat exn

datatype effect = Print string | HttpGet string | MakeDirs path | WriteFile path bytes

record world =
  fs :: "path \<rightharpoonup> node"
  trace :: "effect list"

record env =
  http :: "string list \<Rightarrow> string \<Rightarrow> http_result"
  io_fault :: "string list \<Rightarrow> path \<Rightarrow> write_fault"
  mkdir_fault :: "string list \<Rightarrow> path \<Rightarrow> exn option"

subsection \<open>Views of the trace\<close>

fun printed :: "effect \<Rightarrow> string list" where
  "printed (Print s) = [s]"
| "printed (HttpGet u) = []"
| "printed (MakeDirs p) = []"
| "printed (WriteFile p b) = []"

fun requested :: "effect \<Rightarrow> string list" where
  "requested (Print s) = []"
| "requested (HttpGet u) = [u]"
| "requested (MakeDirs p) = []"
| "requested (WriteFile p b) = []"

text \<open>The lines on the console, and the URLs requested, in the order they happened.\<close>

definition console :: "world \<Rightarrow> string list" where
  "console w = concat (map printed (trace w))"

definition requests :: "world \<Rightarrow> string list" where
  "requests w = concat (map requested (trace w))"

subsection \<open>Rendering values as Python does\<close>

text \<open>\<^verbatim>\<open>str(n)\<close> for an integer: decimal digits, a minus sign for a negative number.\<close>

fun str_nat :: "nat \<Rightarrow> string" where
  "str_nat n = (if n < 10 then [''0123456789'' ! n]
                else str_nat (n div 10) @ [''0123456789'' ! (n mod 10)])"

declare str_nat.simps [simp del]

definition str_int :: "int \<Rightarrow> string" where
  "str_int i = (if i < 0 then CHR ''-'' # str_nat (nat (- i)) else str_nat (nat i))"

text \<open>\<^verbatim>\<open>repr(p)\<close> for a path without quotes or escapes, as the names of the script are.\<close>

definition repr :: "path \<Rightarrow> string" where
  "repr p = [CHR 0x27] @ p @ [CHR 0x27]"

text \<open>\<^verbatim>\<open>str(e)\<close>, which the handler's f-string prints.\<close>

fun str_exn :: "exn \<Rightarrow> string" where
  "str_exn (OSError errno strerror None) = ''[Errno '' @ str_nat errno @ ''] '' @ strerror"
| "str_exn (OSError errno strerror (Some filename)) =
     ''[Errno '' @ str_nat errno @ ''] '' @ strerror @ '': '' @ repr filename"
| "str_exn (RequestException m) = m"

subsection \<open>The library calls\<close>

text \<open>\<^verbatim>\<open>print(s)\<close>: a line on the console.\<close>

definition print :: "string \<Rightarrow> world \<Rightarrow> world" where
  "print s w = w\<lparr>trace := trace w @ [Print s]\<rparr>"

text \<open>\<^verbatim>\<open>os.path.exists(p)\<close>: true of directories and of files; it never raises.\<close>

definition os_path_exists :: "world \<Rightarrow> path \<Rightarrow> bool" where
  "os_path_exists w p = (fs w p \<noteq> None)"

text \<open>
  \<^verbatim>\<open>os.path.join(a, b)\<close> of posixpath: an absolute \<open>b\<close> replaces \<open>a\<close>, otherwise the
  two are joined with one slash.
\<close>

definition os_path_join :: "path \<Rightarrow> path \<Rightarrow> path" where
  "os_path_join a b =
     (if b \<noteq> [] \<and> hd b = CHR ''/'' then b
      else if a = [] \<or> last a = CHR ''/'' then a @ b
      else a @ ''/'' @ b)"

text \<open>
  \<^verbatim>\<open>os.path.dirname(p)\<close> of posixpath: everything up to the last slash, without
  trailing slashes unless it consists of slashes only.
\<close>

definition dirname :: "path \<Rightarrow> path" where
  "dirname p =
     (let head = rev (dropWhile (\<lambda>c. c \<noteq> CHR ''/'') (rev p))
      in if head \<noteq> [] \<and> \<not> list_all (\<lambda>c. c = CHR ''/'') head
         then rev (dropWhile (\<lambda>c. c = CHR ''/'') (rev head))
         else head)"

text \<open>
  \<^verbatim>\<open>os.makedirs(p)\<close> for a path of one component, as \<^verbatim>\<open>libs\<close> is: with the default
  \<^verbatim>\<open>exist_ok=False\<close> it raises \<^verbatim>\<open>FileExistsError\<close> when the path exists. Where the
  path does not exist the environment may still make the call fail: the working
  directory may not be writable, or the name may be taken by a dangling symbolic link,
  which \<^verbatim>\<open>os.path.exists\<close> does not see.
\<close>

definition os_makedirs :: "env \<Rightarrow> path \<Rightarrow> world \<Rightarrow> exn + world" where
  "os_makedirs e p w =
     (if os_path_exists w p then Inl (OSError 17 ''File exists'' (Some p))
      else (case mkdir_fault e (requests w) p of
              Some x \<Rightarrow> Inl x
            | None \<Rightarrow>
                Inr (w\<lparr>fs := (fs w)(p \<mapsto> Dir), trace := trace w @ [MakeDirs p]\<rparr>)))"

text \<open>
  \<^verbatim>\<open>requests.get(url)\<close>: the request is issued, and the environment decides whether
  a response comes back or an exception is raised.
\<close>

definition requests_get :: "env \<Rightarrow> string \<Rightarrow> world \<Rightarrow> http_result \<times> world" where
  "requests_get e url w = (http e (requests w) url, w\<lparr>trace := trace w @ [HttpGet url]\<rparr>)"

text \<open>
  \<^verbatim>\<open>with open(p, "wb") as f: f.write(data)\<close>. The open raises when the directory of
  \<open>p\<close> is missing or is a regular file, and when \<open>p\<close> is a directory; otherwise the
  environment may make the open or the write fail. An open that succeeds creates the
  file or truncates it, so a successful write replaces the whole contents, and a write
  that fails leaves the bytes that were written before the failure.
\<close>

definition write_binary :: "env \<Rightarrow> path \<Rightarrow> bytes \<Rightarrow> world \<Rightarrow> exn option \<times> world" where
  "write_binary e p data w =
     (if dirname p \<noteq> [] \<and> fs w (dirname p) = None
        then (Some (OSError 2 ''No such file or directory'' (Some p)), w)
      else if dirname p \<noteq> [] \<and> fs w (dirname p) \<noteq> Some Dir
        then (Some (OSError 20 ''Not a directory'' (Some p)), w)
      else if fs w p = Some Dir
        then (Some (OSError 21 ''Is a directory'' (Some p)), w)
      else (case io_fault e (requests w) p of
              OpenRaises x \<Rightarrow> (Some x, w)
            | WriteRaises n x \<Rightarrow>
                (Some x, w\<lparr>fs := (fs w)(p \<mapsto> File (take n data)),
                            trace := trace w @ [WriteFile p (take n data)]\<rparr>)
            | NoFault \<Rightarrow>
                (None, w\<lparr>fs := (fs w)(p \<mapsto> File data),
                          trace := trace w @ [WriteFile p data]\<rparr>)))"

subsection \<open>The script\<close>

text \<open>The dictionary \<^verbatim>\<open>LIBRARIES\<close>; \<^verbatim>\<open>items()\<close> yields its pairs in this order.\<close>

definition LIBRARIES :: "(string \<times> string) list" where
  "LIBRARIES =
     [(''react.js'', ''https://unpkg.com/react@18/umd/react.development.js''),
      (''react-dom.js'', ''https://unpkg.com/react-dom@18/umd/react-dom.development.js''),
      (''babel.js'', ''https://unpkg.com/@babel/standalone/babel.min.js''),
      (''tailwind.js'', ''https://cdn.tailwindcss.com'')]"

text \<open>Lines 15 to 17 of \<^verbatim>\<open>download_libs\<close>: the directory is made when the path is absent.\<close>

definition ensure_directory :: "env \<Rightarrow> world \<Rightarrow> exn + world" where
  "ensure_directory e w =
     (if \<not> os_path_exists w ''libs''
      then (case os_makedirs e ''libs'' w of
              Inl x \<Rightarrow> Inl x
            | Inr w1 \<Rightarrow> Inr (print ''Created directory: libs/'' w1))
      else Inr w)"

text \<open>
  Lines 29 to 35, the body of the \<^verbatim>\<open>try\<close>: the exception that leaves it, if any, and
  the world at that moment.
\<close>

definition try_body :: "env \<Rightarrow> string \<Rightarrow> string \<Rightarrow> path \<Rightarrow> world \<Rightarrow> exn option \<times> world" where
  "try_body e filename url filepath w =
     (case requests_get e url w of
        (GetRaises x, w1) \<Rightarrow> (Some x, w1)
      | (Returns r, w1) \<Rightarrow>
          if status_code r = 200
          then (case write_binary e filepath (content r) w1 of
                  (Some x, w2) \<Rightarrow> (Some x, w2)
                | (None, w2) \<Rightarrow> (None, print (''Saved '' @ filename) w2))
          else (None, print (''Failed to download '' @ filename @ '': Status ''
                               @ str_int (status_code r)) w1))"

text \<open>Lines 22 to 37, the body of the loop, with the handler of line 36.\<close>

definition process_entry :: "env \<Rightarrow> string \<times> string \<Rightarrow> world \<Rightarrow> world" where
  "process_entry e entry w =
     (let filename = fst entry; url = snd entry;
          filepath = os_path_join ''libs'' filename
      in if os_path_exists w filepath
         then print (filename @ '' already exists. Skipping.'') w
         else (case try_body e filename url filepath
                      (print (''Downloading '' @ filename @ ''...'') w) of
                 (Some x, w1) \<Rightarrow>
                   print (''Error downloading '' @ filename @ '': '' @ str_exn x) w1
               | (None, w1) \<Rightarrow> w1))"

text \<open>The loop of line 21 over a list of entries.\<close>

fun fetch_all :: "env \<Rightarrow> (string \<times> string) list \<Rightarrow> world \<Rightarrow> world" where
  "fetch_all e [] w = w"
| "fetch_all e (entry # entries) w = fetch_all e entries (process_entry e entry w)"

definition closing_message :: string where
  "closing_message =
     CHR 0x0A # ''Dependencies ready! You can now open 'index.html' offline.''"

text \<open>
  \<^verbatim>\<open>download_libs()\<close>: line 16 is outside the \<^verbatim>\<open>try\<close>, so an exception of
  \<^verbatim>\<open>os.makedirs\<close> leaves the function before anything is printed.
\<close>

definition download_libs :: "env \<Rightarrow> world \<Rightarrow> exn + world" where
  "download_libs e w =
     (case ensure_directory e w of
        Inl x \<Rightarrow> Inl x
      | Inr w1 \<Rightarrow>
          Inr (print closing_message
                 (fetch_all e LIBRARIES
                    (print ''Starting download of dependencies...'' w1))))"

text \<open>
  The script run as a program: the interpreter exits with status 0 when
  \<^verbatim>\<open>download_libs()\<close> returns and with status 1 when an exception leaves it.
\<close>

definition main :: "env \<Rightarrow> world \<Rightarrow> int \<times> world" where
  "main e w =
     (case download_libs e w of
        Inl x \<Rightarrow> (1, w)
      | Inr w1 \<Rightarrow> (0, w1))"

subsection \<open>The effects of one entry\<close>

text \<open>
  The effects that belong to an entry: the five lines the loop body prints about its
  file name, a GET of its URL, and a write to its target.
\<close>

definition starts_with :: "string \<Rightarrow> string \<Rightarrow> bool" where
  "starts_with pre s = (take (length pre) s = pre)"

fun entry_effect :: "string \<times> string \<Rightarrow> effect \<Rightarrow> bool" where
  "entry_effect entry (Print s) =
     (s = fst entry @ '' already exists. Skipping.''
      \<or> s = ''Downloading '' @ fst entry @ ''...''
      \<or> s = ''Saved '' @ fst entry
      \<or> starts_with (''Failed to download '' @ fst entry @ '': Status '') s
      \<or> starts_with (''Error downloading '' @ fst entry @ '': '') s)"
| "entry_effect entry (HttpGet u) = (u = snd entry)"
| "entry_effect entry (MakeDirs p) = False"
| "entry_effect entry (WriteFile p b) = (p = os_path_join ''libs'' (fst entry))"

subsection \<open>The outcome of an entry, in the words of the specification\<close>

text \<open>
  The specification sorts what happens to an entry into outcomes: the entry is skipped
  because its target exists; its body is saved; the GET returns a status other than
  200; the GET raises; or, with status 200, the open or the write raises, leaving
  nothing or the bytes written before the failure. The definitions below say which
  outcome an entry has in a given world, which effects and which filesystem each
  outcome leaves, and what a batch of entries comes to, one outcome per entry. They
  are written from the specification, not from the loop, and the loop is compared with
  them.
\<close>

datatype outcome =
  Skipped | Saved bytes | HttpError int | TransportError exn | WriteError exn "bytes option"

text \<open>The world in which the answer to the GET of an entry arrives.\<close>

definition answered :: "string \<times> string \<Rightarrow> world \<Rightarrow> world" where
  "answered entry w =
     w\<lparr>trace := trace w @ [Print (''Downloading '' @ fst entry @ ''...''), HttpGet (snd entry)]\<rparr>"

definition entry_outcome :: "env \<Rightarrow> string \<times> string \<Rightarrow> world \<Rightarrow> outcome" where
  "entry_outcome e entry w =
     (let target = os_path_join ''libs'' (fst entry)
      in if os_path_exists w target then Skipped
         else (case http e (requests w) (snd entry) of
                 GetRaises x \<Rightarrow> TransportError x
               | Returns r \<Rightarrow>
                   if status_code r \<noteq> 200 then HttpError (status_code r)
                   else (case write_binary e target (content r) (answered entry w) of
                           (None, w2) \<Rightarrow> Saved (content r)
                         | (Some x, w2) \<Rightarrow>
                             WriteError x (case fs w2 target of
                                             Some (File b) \<Rightarrow> Some b
                                           | Some Dir \<Rightarrow> None
                                           | None \<Rightarrow> None))))"

fun outcome_effects :: "string \<times> string \<Rightarrow> outcome \<Rightarrow> effect list" where
  "outcome_effects entry Skipped = [Print (fst entry @ '' already exists. Skipping.'')]"
| "outcome_effects entry (Saved b) =
     [Print (''Downloading '' @ fst entry @ ''...''), HttpGet (snd entry),
      WriteFile (os_path_join ''libs'' (fst entry)) b, Print (''Saved '' @ fst entry)]"
| "outcome_effects entry (HttpError status) =
     [Print (''Downloading '' @ fst entry @ ''...''), HttpGet (snd entry),
      Print (''Failed to download '' @ fst entry @ '': Status '' @ str_int status)]"
| "outcome_effects entry (TransportError x) =
     [Print (''Downloading '' @ fst entry @ ''...''), HttpGet (snd entry),
      Print (''Error downloading '' @ fst entry @ '': '' @ str_exn x)]"
| "outcome_effects entry (WriteError x None) =
     [Print (''Downloading '' @ fst entry @ ''...''), HttpGet (snd entry),
      Print (''Error downloading '' @ fst entry @ '': '' @ str_exn x)]"
| "outcome_effects entry (WriteError x (Some b)) =
     [Print (''Downloading '' @ fst entry @ ''...''), HttpGet (snd entry),
      WriteFile (os_path_join ''libs'' (fst entry)) b,
      Print (''Error downloading '' @ fst entry @ '': '' @ str_exn x)]"

fun outcome_fs :: "string \<times> string \<Rightarrow> outcome \<Rightarrow> (path \<rightharpoonup> node) \<Rightarrow> (path \<rightharpoonup> node)" where
  "outcome_fs entry (Saved b) f = f(os_path_join ''libs'' (fst entry) \<mapsto> File b)"
| "outcome_fs entry (WriteError x (Some b)) f = f(os_path_join ''libs'' (fst entry) \<mapsto> File b)"
| "outcome_fs entry (WriteError x None) f = f"
| "outcome_fs entry Skipped f = f"
| "outcome_fs entry (HttpError status) f = f"
| "outcome_fs entry (TransportError x) f = f"

definition after_entry :: "string \<times> string \<Rightarrow> outcome \<Rightarrow> world \<Rightarrow> world" where
  "after_entry entry out w =
     w\<lparr>fs := outcome_fs entry out (fs w), trace := trace w @ outcome_effects entry out\<rparr>"

text \<open>One outcome per entry, each in the world its predecessors left.\<close>

fun batch_outcomes :: "env \<Rightarrow> (string \<times> string) list \<Rightarrow> world \<Rightarrow> outcome list" where
  "batch_outcomes e [] w = []"
| "batch_outcomes e (entry # entries) w =
     entry_outcome e entry w
       # batch_outcomes e entries (after_entry entry (entry_outcome e entry w) w)"

fun batch_effects :: "(string \<times> string) list \<Rightarrow> outcome list \<Rightarrow> effect list" where
  "batch_effects (entry # entries) (out # outs) =
     outcome_effects entry out @ batch_effects entries outs"
| "batch_effects entries outs = []"

subsection \<open>Concrete environments and worlds\<close>

text \<open>
  An empty working directory; one where \<^verbatim>\<open>libs\<close> is a directory; one where it
  already holds \<^verbatim>\<open>react.js\<close>; and one where \<^verbatim>\<open>libs\<close> is a regular file, so that
  no file can be opened below it. The first four environments answer every request
  alike: with status 200, with status 404, with a connection error, or with status 200
  on a disk that is full after one byte. The next three fail for \<^verbatim>\<open>babel.js\<close> only,
  and the last one has a working directory in which nothing can be created.
\<close>

definition world_empty :: world where
  "world_empty = \<lparr>fs = Map.empty, trace = []\<rparr>"

definition world_react_present :: world where
  "world_react_present =
     \<lparr>fs = [''libs'' \<mapsto> Dir, ''libs/react.js'' \<mapsto> File ''old''], trace = []\<rparr>"

definition world_libs_dir :: world where
  "world_libs_dir = \<lparr>fs = [''libs'' \<mapsto> Dir], trace = []\<rparr>"

definition world_libs_file :: world where
  "world_libs_file = \<lparr>fs = [''libs'' \<mapsto> File []], trace = []\<rparr>"

definition env_ok :: env where
  "env_ok = \<lparr>http = (\<lambda>h u. Returns \<lparr>status_code = 200, content = ''abc''\<rparr>),
             io_fault = (\<lambda>h p. NoFault), mkdir_fault = (\<lambda>h p. None)\<rparr>"

definition env_404 :: env where
  "env_404 = \<lparr>http = (\<lambda>h u. Returns \<lparr>status_code = 404, content = ''gone''\<rparr>),
              io_fault = (\<lambda>h p. NoFault), mkdir_fault = (\<lambda>h p. None)\<rparr>"

definition env_offline :: env where
  "env_offline = \<lparr>http = (\<lambda>h u. GetRaises (RequestException ''Connection refused'')),
                  io_fault = (\<lambda>h p. NoFault), mkdir_fault = (\<lambda>h p. None)\<rparr>"

definition env_disk_full :: env where
  "env_disk_full = \<lparr>http = (\<lambda>h u. Returns \<lparr>status_code = 200, content = ''abc''\<rparr>),
                    io_fault = (\<lambda>h p. WriteRaises 1 (OSError 28 ''No space left on device'' None)),
                    mkdir_fault = (\<lambda>h p. None)\<rparr>"

definition env_babel_404 :: env where
  "env_babel_404 =
     \<lparr>http = (\<lambda>h u. if u = ''https://unpkg.com/@babel/standalone/babel.min.js''
                      then Returns \<lparr>status_code = 404, content = ''gone''\<rparr>
                      else Returns \<lparr>status_code = 200, content = ''abc''\<rparr>),
      io_fault = (\<lambda>h p. NoFault), mkdir_fault = (\<lambda>h p. None)\<rparr>"

definition env_babel_down :: env where
  "env_babel_down =
     \<lparr>http = (\<lambda>h u. if u = ''https://unpkg.com/@babel/standalone/babel.min.js''
                      then GetRaises (RequestException ''Connection refused'')
                      else Returns \<lparr>status_code = 200, content = ''abc''\<rparr>),
      io_fault = (\<lambda>h p. NoFault), mkdir_fault = (\<lambda>h p. None)\<rparr>"

definition env_babel_disk_full :: env where
  "env_babel_disk_full =
     \<lparr>http = (\<lambda>h u. Returns \<lparr>status_code = 200, content = ''abc''\<rparr>),
      io_fault = (\<lambda>h p. if p = ''libs/babel.js''
                          then WriteRaises 1 (OSError 28 ''No space left on device'' None)
                          else NoFault),
      mkdir_fault = (\<lambda>h p. None)\<rparr>"

definition env_readonly :: env where
  "env_readonly =
     \<lparr>http = (\<lambda>h u. Returns \<lparr>status_code = 200, content = ''abc''\<rparr>),
      io_fault = (\<lambda>h p. NoFault),
      mkdir_fault = (\<lambda>h p. Some (OSError 13 ''Permission denied'' (Some p)))\<rparr>"

section \<open>Properties\<close>

subsection \<open>Facts about the library calls\<close>

lemma trace_print [simp]: "trace (print s w) = trace w @ [Print s]"
  by (simp add: print_def)

lemma fs_print [simp]: "fs (print s w) = fs w"
  by (simp add: print_def)

lemma console_print [simp]: "console (print s w) = console w @ [s]"
  by (simp add: console_def)

lemma requests_print [simp]: "requests (print s w) = requests w"
  by (simp add: requests_def)

lemma exists_print [simp]: "os_path_exists (print s w) p = os_path_exists w p"
  by (simp add: os_path_exists_def)

lemma write_binary_requests [simp]:
  "requests (snd (write_binary e p d w)) = requests w"
  by (simp add: write_binary_def requests_def split: write_fault.splits)

lemma write_binary_ok:
  "write_binary e p d w = (None, w') \<Longrightarrow>
     w' = w\<lparr>fs := (fs w)(p \<mapsto> File d), trace := trace w @ [WriteFile p d]\<rparr>"
  by (auto simp add: write_binary_def split: write_fault.splits if_splits)

lemma write_binary_failed:
  "write_binary e p d w = (Some x, w') \<Longrightarrow> fs w p = None \<Longrightarrow>
     (fs w' p = None \<and> w' = w)
     \<or> (\<exists>b. fs w' p = Some (File b)
             \<and> w' = w\<lparr>fs := (fs w)(p \<mapsto> File b), trace := trace w @ [WriteFile p b]\<rparr>)"
  by (auto simp add: write_binary_def split: write_fault.splits if_splits)

lemma os_path_join_libs_inject:
  "os_path_join ''libs'' a = os_path_join ''libs'' b \<Longrightarrow> a = b"
  by (auto simp add: os_path_join_def split: if_splits)

lemma os_path_join_libs_neq: "os_path_join ''libs'' b \<noteq> ''libs''"
  by (auto simp add: os_path_join_def)

lemmas example_defs = world_empty_def world_react_present_def world_libs_dir_def
  world_libs_file_def env_ok_def env_404_def env_offline_def env_disk_full_def
  env_babel_404_def env_babel_down_def env_babel_disk_full_def env_readonly_def

lemmas call_defs = os_path_exists_def os_path_join_def requests_get_def write_binary_def
  dirname_def print_def console_def requests_def

subsection \<open>The loop body against the outcomes\<close>

lemma process_entry_outcome:
  "process_entry e entry w = after_entry entry (entry_outcome e entry w) w"
proof (cases "os_path_exists w (os_path_join ''libs'' (fst entry))")
  case True
  then show ?thesis
    by (simp add: process_entry_def Let_def entry_outcome_def after_entry_def print_def)
next
  case absent: False
  show ?thesis
  proof (cases "http e (requests w) (snd entry)")
    case (GetRaises x)
    with absent show ?thesis
      by (simp add: process_entry_def Let_def try_body_def requests_get_def print_def
          requests_def entry_outcome_def after_entry_def answered_def os_path_exists_def)
  next
    case (Returns r)
    show ?thesis
    proof (cases "status_code r = 200")
      case False
      with absent Returns show ?thesis
        by (simp add: process_entry_def Let_def try_body_def requests_get_def print_def
          requests_def entry_outcome_def after_entry_def answered_def os_path_exists_def)
    next
      case ok: True
      obtain x w2 where wb:
        "write_binary e (os_path_join ''libs'' (fst entry)) (content r) (answered entry w) = (x, w2)"
        by (cases "write_binary e (os_path_join ''libs'' (fst entry)) (content r)
                     (answered entry w)")
      show ?thesis
      proof (cases x)
        case None
        with wb have "w2 = (answered entry w)\<lparr>fs := (fs (answered entry w))
                             (os_path_join ''libs'' (fst entry) \<mapsto> File (content r)),
                           trace := trace (answered entry w)
                             @ [WriteFile (os_path_join ''libs'' (fst entry)) (content r)]\<rparr>"
          using write_binary_ok by blast
        with absent Returns ok wb None show ?thesis
          by (simp add: process_entry_def Let_def try_body_def requests_get_def print_def
          requests_def entry_outcome_def after_entry_def answered_def os_path_exists_def)
      next
        case (Some y)
        have "fs (answered entry w) (os_path_join ''libs'' (fst entry)) = None"
          using absent by (simp add: answered_def os_path_exists_def)
        with wb Some have
          "(fs w2 (os_path_join ''libs'' (fst entry)) = None \<and> w2 = answered entry w)
           \<or> (\<exists>b. fs w2 (os_path_join ''libs'' (fst entry)) = Some (File b)
                  \<and> w2 = (answered entry w)\<lparr>fs := (fs (answered entry w))
                             (os_path_join ''libs'' (fst entry) \<mapsto> File b),
                           trace := trace (answered entry w)
                             @ [WriteFile (os_path_join ''libs'' (fst entry)) b]\<rparr>)"
          using write_binary_failed by blast
        then show ?thesis
        proof
          assume "fs w2 (os_path_join ''libs'' (fst entry)) = None \<and> w2 = answered entry w"
          with absent Returns ok wb Some show ?thesis
            by (simp add: process_entry_def Let_def try_body_def requests_get_def print_def
          requests_def entry_outcome_def after_entry_def answered_def os_path_exists_def)
        next
          assume "\<exists>b. fs w2 (os_path_join ''libs'' (fst entry)) = Some (File b)
                  \<and> w2 = (answered entry w)\<lparr>fs := (fs (answered entry w))
                             (os_path_join ''libs'' (fst entry) \<mapsto> File b),
                           trace := trace (answered entry w)
                             @ [WriteFile (os_path_join ''libs'' (fst entry)) b]\<rparr>"
          then obtain b where
            "fs w2 (os_path_join ''libs'' (fst entry)) = Some (File b)"
            "w2 = (answered entry w)\<lparr>fs := (fs (answered entry w))
                             (os_path_join ''libs'' (fst entry) \<mapsto> File b),
                           trace := trace (answered entry w)
                             @ [WriteFile (os_path_join ''libs'' (fst entry)) b]\<rparr>"
            by blast
          with absent Returns ok wb Some show ?thesis
            by (simp add: process_entry_def Let_def try_body_def requests_get_def print_def
          requests_def entry_outcome_def after_entry_def answered_def os_path_exists_def)
        qed
      qed
    qed
  qed
qed

lemma trace_after_entry [simp]:
  "trace (after_entry entry out w) = trace w @ outcome_effects entry out"
  by (simp add: after_entry_def)

lemma fs_after_entry [simp]:
  "fs (after_entry entry out w) = outcome_fs entry out (fs w)"
  by (simp add: after_entry_def)

lemma trace_process_entry:
  "trace (process_entry e entry w) = trace w @ outcome_effects entry (entry_outcome e entry w)"
  by (simp add: process_entry_outcome)

lemma trace_fetch_all:
  "trace (fetch_all e entries w) = trace w @ batch_effects entries (batch_outcomes e entries w)"
proof (induction entries arbitrary: w)
  case Nil
  show ?case by simp
next
  case (Cons entry entries)
  have "trace (fetch_all e (entry # entries) w)
          = trace (process_entry e entry w)
            @ batch_effects entries (batch_outcomes e entries (process_entry e entry w))"
    using Cons.IH [of "process_entry e entry w"] by simp
  then show ?case
    by (simp add: process_entry_outcome)
qed

lemma length_batch_outcomes: "length (batch_outcomes e entries w) = length entries"
  by (induction entries arbitrary: w) simp_all

lemma outcome_effects_nonempty: "outcome_effects entry out \<noteq> []"
  by (cases "(entry, out)" rule: outcome_effects.cases) simp_all

lemma outcome_effects_own: "list_all (entry_effect entry) (outcome_effects entry out)"
  by (cases "(entry, out)" rule: outcome_effects.cases) (simp_all add: starts_with_def)

lemma outcome_fs_other:
  "p \<noteq> os_path_join ''libs'' (fst entry) \<Longrightarrow> outcome_fs entry out f p = f p"
  by (cases "(entry, out, f)" rule: outcome_fs.cases) simp_all

lemma fs_process_entry_other:
  "p \<noteq> os_path_join ''libs'' (fst entry) \<Longrightarrow> fs (process_entry e entry w) p = fs w p"
  by (simp add: process_entry_outcome outcome_fs_other)

lemma fs_process_entry_existing:
  "fs w p \<noteq> None \<Longrightarrow> fs (process_entry e entry w) p = fs w p"
proof (cases "p = os_path_join ''libs'' (fst entry)")
  case True
  assume "fs w p \<noteq> None"
  with True show ?thesis
    by (simp add: process_entry_def os_path_exists_def)
next
  case False
  then show ?thesis by (rule fs_process_entry_other)
qed

lemma fs_fetch_all_existing:
  "fs w p \<noteq> None \<Longrightarrow> fs (fetch_all e entries w) p = fs w p"
proof (induction entries arbitrary: w)
  case Nil
  show ?case by simp
next
  case (Cons entry entries)
  have "fs (process_entry e entry w) p = fs w p"
    using Cons.prems by (rule fs_process_entry_existing)
  with Cons show ?case by simp
qed

lemma fetch_all_append:
  "fetch_all e (xs @ ys) w = fetch_all e ys (fetch_all e xs w)"
  by (induction xs arbitrary: w) simp_all

subsection \<open>One entry\<close>

text \<open>
  C1. When the target of an entry exists at the moment the entry is processed, the only
  effect is the line that says so: no GET is issued, and the filesystem, with the
  contents of the existing file, stays as it was.
\<close>

theorem existing_target_skipped:
  assumes "os_path_exists w (os_path_join ''libs'' filename)"
  shows "trace (process_entry e (filename, url) w)
           = trace w @ [Print (filename @ '' already exists. Skipping.'')]
       \<and> requests (process_entry e (filename, url) w) = requests w
       \<and> fs (process_entry e (filename, url) w) = fs w"
  using assms by (simp add: process_entry_def)

theorem existing_target_skipped_witness:
  "os_path_exists world_react_present (os_path_join ''libs'' ''react.js'')
   \<and> trace (process_entry env_ok (''react.js'', ''https://unpkg.com/react@18/umd/react.development.js'')
               world_react_present)
       = [Print ''react.js already exists. Skipping.'']
   \<and> fs (process_entry env_ok (''react.js'', ''https://unpkg.com/react@18/umd/react.development.js'')
            world_react_present) ''libs/react.js''
       = Some (File ''old'')"
proof -
  have h: "os_path_exists world_react_present (os_path_join ''libs'' ''react.js'')"
    by (simp add: world_react_present_def os_path_exists_def os_path_join_def)
  from existing_target_skipped [OF h, of env_ok "''https://unpkg.com/react@18/umd/react.development.js''"] h
  show ?thesis by (simp add: world_react_present_def)
qed

text \<open>
  C2, as amended. When the target is absent, the GET returns status 200 and neither the
  open nor the write raises, the target holds exactly the bytes of the response body,
  whatever it held before, and the line after the write reports the file as saved.
\<close>

theorem saved_bytes_equal_body:
  assumes "\<not> os_path_exists w (os_path_join ''libs'' filename)"
    and "requests_get e url (print (''Downloading '' @ filename @ ''...'') w) = (Returns r, w1)"
    and "status_code r = 200"
    and "write_binary e (os_path_join ''libs'' filename) (content r) w1 = (None, w2)"
  shows "process_entry e (filename, url) w = print (''Saved '' @ filename) w2
       \<and> fs (process_entry e (filename, url) w)
           = (fs w)(os_path_join ''libs'' filename \<mapsto> File (content r))
       \<and> trace (process_entry e (filename, url) w)
           = trace w @ [Print (''Downloading '' @ filename @ ''...''), HttpGet url,
                        WriteFile (os_path_join ''libs'' filename) (content r),
                        Print (''Saved '' @ filename)]"
proof -
  have w1: "w1 = (print (''Downloading '' @ filename @ ''...'') w)\<lparr>trace := trace w @ [Print (''Downloading '' @ filename @ ''...''), HttpGet url]\<rparr>"
    using assms(2) by (auto simp add: requests_get_def)
  have w2: "w2 = w1\<lparr>fs := (fs w1)(os_path_join ''libs'' filename \<mapsto> File (content r)),
                     trace := trace w1 @ [WriteFile (os_path_join ''libs'' filename) (content r)]\<rparr>"
    using assms(4) by (rule write_binary_ok)
  have step: "process_entry e (filename, url) w = print (''Saved '' @ filename) w2"
    using assms by (simp add: process_entry_def try_body_def)
  show ?thesis
    unfolding step by (simp add: w2 w1)
qed

theorem saved_bytes_equal_body_witness:
  "fs (process_entry env_ok (''react.js'', ''https://unpkg.com/react@18/umd/react.development.js'')
         world_libs_dir) ''libs/react.js'' = Some (File ''abc'')
   \<and> console (process_entry env_ok (''react.js'', ''https://unpkg.com/react@18/umd/react.development.js'')
         world_libs_dir) = [''Downloading react.js...'', ''Saved react.js'']"
proof -
  let ?url = "''https://unpkg.com/react@18/umd/react.development.js''"
  let ?r = "\<lparr>status_code = 200, content = ''abc''\<rparr>"
  let ?w1 = "world_libs_dir\<lparr>trace := [Print ''Downloading react.js...'', HttpGet ?url]\<rparr>"
  let ?w2 = "?w1\<lparr>fs := (fs ?w1)(''libs/react.js'' \<mapsto> File ''abc''),
                   trace := trace ?w1 @ [WriteFile ''libs/react.js'' ''abc'']\<rparr>"
  have a: "\<not> os_path_exists world_libs_dir (os_path_join ''libs'' ''react.js'')"
    by (simp add: world_libs_dir_def os_path_exists_def os_path_join_def)
  have b: "requests_get env_ok ?url (print (''Downloading '' @ ''react.js'' @ ''...'') world_libs_dir)
             = (Returns ?r, ?w1)"
    by (simp add: requests_get_def env_ok_def print_def world_libs_dir_def)
  have c: "status_code ?r = 200" by simp
  have d: "write_binary env_ok (os_path_join ''libs'' ''react.js'') (content ?r) ?w1 = (None, ?w2)"
    by (simp add: write_binary_def env_ok_def world_libs_dir_def os_path_join_def dirname_def)
  from saved_bytes_equal_body [OF a b c d]
  show ?thesis by (simp add: os_path_join_def console_def world_libs_dir_def)
qed

text \<open>
  Absence of the target and status 200 alone do not give this: where \<^verbatim>\<open>libs\<close> is a
  regular file the open raises, nothing is written and the handler's line is printed
  in place of the success message.
\<close>

theorem saved_bytes_counterexample:
  "\<not> os_path_exists world_libs_file (os_path_join ''libs'' ''react.js'')
   \<and> http env_ok (requests world_libs_file) ''https://unpkg.com/react@18/umd/react.development.js''
       = Returns \<lparr>status_code = 200, content = ''abc''\<rparr>
   \<and> fs (process_entry env_ok (''react.js'', ''https://unpkg.com/react@18/umd/react.development.js'')
            world_libs_file) (os_path_join ''libs'' ''react.js'') = None
   \<and> console (process_entry env_ok (''react.js'', ''https://unpkg.com/react@18/umd/react.development.js'')
            world_libs_file)
       = [''Downloading react.js...'',
          ''Error downloading react.js: [Errno 20] Not a directory: '' @ repr ''libs/react.js'']"
  by (simp add: process_entry_def try_body_def example_defs call_defs repr_def str_nat.simps)

text \<open>
  C4. When the target is absent and the GET returns a status other than 200, the entry
  leaves three effects behind, the last one the failure line with the status code, and
  the filesystem is unchanged, so the target is still absent. No exception leaves the
  body: the trace of the loop over this entry and any entries after it is those three
  effects followed by the effects of the later entries, one outcome for each of them,
  starting from the world the failure line left.
\<close>

theorem http_error_leaves_target_absent:
  assumes "\<not> os_path_exists w (os_path_join ''libs'' filename)"
    and "requests_get e url (print (''Downloading '' @ filename @ ''...'') w) = (Returns r, w1)"
    and "status_code r \<noteq> 200"
  shows "trace (process_entry e (filename, url) w)
           = trace w @ [Print (''Downloading '' @ filename @ ''...''), HttpGet url,
                        Print (''Failed to download '' @ filename @ '': Status ''
                               @ str_int (status_code r))]
       \<and> fs (process_entry e (filename, url) w) = fs w
       \<and> \<not> os_path_exists (process_entry e (filename, url) w) (os_path_join ''libs'' filename)
       \<and> trace (fetch_all e ((filename, url) # entries) w)
           = trace w @ [Print (''Downloading '' @ filename @ ''...''), HttpGet url,
                        Print (''Failed to download '' @ filename @ '': Status ''
                               @ str_int (status_code r))]
             @ batch_effects entries
                 (batch_outcomes e entries
                    (print (''Failed to download '' @ filename @ '': Status ''
                            @ str_int (status_code r)) w1))
       \<and> length (batch_outcomes e entries
                    (print (''Failed to download '' @ filename @ '': Status ''
                            @ str_int (status_code r)) w1)) = length entries"
proof -
  let ?line = "''Failed to download '' @ filename @ '': Status '' @ str_int (status_code r)"
  have w1: "w1 = w\<lparr>trace := trace w @ [Print (''Downloading '' @ filename @ ''...''), HttpGet url]\<rparr>"
    using assms(2) by (auto simp add: requests_get_def print_def)
  have step: "process_entry e (filename, url) w = print ?line w1"
    using assms by (simp add: process_entry_def try_body_def)
  have rest: "trace (fetch_all e ((filename, url) # entries) w)
                = trace (print ?line w1)
                  @ batch_effects entries (batch_outcomes e entries (print ?line w1))"
    unfolding fetch_all.simps step by (rule trace_fetch_all)
  show ?thesis
    using assms(1) unfolding rest step
    by (simp add: w1 os_path_exists_def length_batch_outcomes)
qed

theorem http_error_leaves_target_absent_witness:
  "trace (process_entry env_babel_404
            (''babel.js'', ''https://unpkg.com/@babel/standalone/babel.min.js'') world_libs_dir)
     = [Print ''Downloading babel.js...'',
        HttpGet ''https://unpkg.com/@babel/standalone/babel.min.js'',
        Print ''Failed to download babel.js: Status 404'']
   \<and> fs (process_entry env_babel_404
           (''babel.js'', ''https://unpkg.com/@babel/standalone/babel.min.js'') world_libs_dir)
        ''libs/babel.js'' = None
   \<and> trace (fetch_all env_babel_404
              [(''babel.js'', ''https://unpkg.com/@babel/standalone/babel.min.js''),
               (''tailwind.js'', ''https://cdn.tailwindcss.com'')] world_libs_dir)
     = [Print ''Downloading babel.js...'',
        HttpGet ''https://unpkg.com/@babel/standalone/babel.min.js'',
        Print ''Failed to download babel.js: Status 404'',
        Print ''Downloading tailwind.js...'',
        HttpGet ''https://cdn.tailwindcss.com'',
        WriteFile ''libs/tailwind.js'' ''abc'',
        Print ''Saved tailwind.js'']"
proof -
  let ?url = "''https://unpkg.com/@babel/standalone/babel.min.js''"
  let ?r = "\<lparr>status_code = 404, content = ''gone''\<rparr>"
  let ?w1 = "world_libs_dir\<lparr>trace := [Print ''Downloading babel.js...'', HttpGet ?url]\<rparr>"
  let ?rest = "[(''tailwind.js'', ''https://cdn.tailwindcss.com'')]"
  have a: "\<not> os_path_exists world_libs_dir (os_path_join ''libs'' ''babel.js'')"
    by (simp add: world_libs_dir_def os_path_exists_def os_path_join_def)
  have b: "requests_get env_babel_404 ?url
             (print (''Downloading '' @ ''babel.js'' @ ''...'') world_libs_dir)
             = (Returns ?r, ?w1)"
    by (simp add: requests_get_def env_babel_404_def print_def world_libs_dir_def)
  have c: "status_code ?r \<noteq> 200" by simp
  have s: "str_int 404 = ''404''" by (simp add: str_int_def str_nat.simps)
  have later: "batch_outcomes env_babel_404 ?rest
                 (print (''Failed to download '' @ ''babel.js'' @ '': Status ''
                         @ str_int (status_code ?r)) ?w1) = [Saved ''abc'']"
    by (simp add: entry_outcome_def answered_def env_babel_404_def world_libs_dir_def
        call_defs)
  from http_error_leaves_target_absent [OF a b c, of ?rest]
  show ?thesis
    unfolding later by (simp add: s world_libs_dir_def os_path_join_def)
qed

text \<open>
  C5. When the target is absent and the GET raises, the handler prints the message of
  the exception, and the filesystem is unchanged, so no file is created. Execution
  proceeds: the trace of the loop over this entry and any entries after it is the three
  effects of this entry followed by the effects of the later entries, one outcome for
  each of them, starting from the world the handler's line left.
\<close>

theorem transport_error_caught:
  assumes "\<not> os_path_exists w (os_path_join ''libs'' filename)"
    and "requests_get e url (print (''Downloading '' @ filename @ ''...'') w) = (GetRaises x, w1)"
  shows "trace (process_entry e (filename, url) w)
           = trace w @ [Print (''Downloading '' @ filename @ ''...''), HttpGet url,
                        Print (''Error downloading '' @ filename @ '': '' @ str_exn x)]
       \<and> fs (process_entry e (filename, url) w) = fs w
       \<and> \<not> os_path_exists (process_entry e (filename, url) w) (os_path_join ''libs'' filename)
       \<and> trace (fetch_all e ((filename, url) # entries) w)
           = trace w @ [Print (''Downloading '' @ filename @ ''...''), HttpGet url,
                        Print (''Error downloading '' @ filename @ '': '' @ str_exn x)]
             @ batch_effects entries
                 (batch_outcomes e entries
                    (print (''Error downloading '' @ filename @ '': '' @ str_exn x) w1))
       \<and> length (batch_outcomes e entries
                    (print (''Error downloading '' @ filename @ '': '' @ str_exn x) w1))
           = length entries"
proof -
  let ?line = "''Error downloading '' @ filename @ '': '' @ str_exn x"
  have w1: "w1 = w\<lparr>trace := trace w @ [Print (''Downloading '' @ filename @ ''...''), HttpGet url]\<rparr>"
    using assms(2) by (auto simp add: requests_get_def print_def)
  have step: "process_entry e (filename, url) w = print ?line w1"
    using assms by (simp add: process_entry_def try_body_def)
  have rest: "trace (fetch_all e ((filename, url) # entries) w)
                = trace (print ?line w1)
                  @ batch_effects entries (batch_outcomes e entries (print ?line w1))"
    unfolding fetch_all.simps step by (rule trace_fetch_all)
  show ?thesis
    using assms(1) unfolding rest step
    by (simp add: w1 os_path_exists_def length_batch_outcomes)
qed

theorem transport_error_caught_witness:
  "trace (process_entry env_babel_down
            (''babel.js'', ''https://unpkg.com/@babel/standalone/babel.min.js'') world_libs_dir)
     = [Print ''Downloading babel.js...'',
        HttpGet ''https://unpkg.com/@babel/standalone/babel.min.js'',
        Print ''Error downloading babel.js: Connection refused'']
   \<and> fs (process_entry env_babel_down
           (''babel.js'', ''https://unpkg.com/@babel/standalone/babel.min.js'') world_libs_dir)
        ''libs/babel.js'' = None
   \<and> trace (fetch_all env_babel_down
              [(''babel.js'', ''https://unpkg.com/@babel/standalone/babel.min.js''),
               (''tailwind.js'', ''https://cdn.tailwindcss.com'')] world_libs_dir)
     = [Print ''Downloading babel.js...'',
        HttpGet ''https://unpkg.com/@babel/standalone/babel.min.js'',
        Print ''Error downloading babel.js: Connection refused'',
        Print ''Downloading tailwind.js...'',
        HttpGet ''https://cdn.tailwindcss.com'',
        WriteFile ''libs/tailwind.js'' ''abc'',
        Print ''Saved tailwind.js'']"
proof -
  let ?url = "''https://unpkg.com/@babel/standalone/babel.min.js''"
  let ?w1 = "world_libs_dir\<lparr>trace := [Print ''Downloading babel.js...'', HttpGet ?url]\<rparr>"
  let ?rest = "[(''tailwind.js'', ''https://cdn.tailwindcss.com'')]"
  have a: "\<not> os_path_exists world_libs_dir (os_path_join ''libs'' ''babel.js'')"
    by (simp add: world_libs_dir_def os_path_exists_def os_path_join_def)
  have b: "requests_get env_babel_down ?url
             (print (''Downloading '' @ ''babel.js'' @ ''...'') world_libs_dir)
             = (GetRaises (RequestException ''Connection refused''), ?w1)"
    by (simp add: requests_get_def env_babel_down_def print_def world_libs_dir_def)
  have later: "batch_outcomes env_babel_down ?rest
                 (print (''Error downloading '' @ ''babel.js'' @ '': ''
                         @ str_exn (RequestException ''Connection refused'')) ?w1)
               = [Saved ''abc'']"
    by (simp add: entry_outcome_def answered_def env_babel_down_def world_libs_dir_def
        call_defs)
  from transport_error_caught [OF a b, of ?rest]
  show ?thesis
    unfolding later by (simp add: world_libs_dir_def os_path_join_def)
qed

text \<open>
  C10. The handler covers the open and the write as well: when the GET returns status
  200 and the open or the write raises, the exception is caught and printed as a
  download error. The batch continues: the trace of the loop over this entry and any
  entries after it ends with the handler's line followed by the effects of the later
  entries, one outcome for each of them.
\<close>

theorem write_error_caught:
  assumes "\<not> os_path_exists w (os_path_join ''libs'' filename)"
    and "requests_get e url (print (''Downloading '' @ filename @ ''...'') w) = (Returns r, w1)"
    and "status_code r = 200"
    and "write_binary e (os_path_join ''libs'' filename) (content r) w1 = (Some x, w2)"
  shows "process_entry e (filename, url) w
           = print (''Error downloading '' @ filename @ '': '' @ str_exn x) w2
       \<and> console (process_entry e (filename, url) w)
           = console w @ [''Downloading '' @ filename @ ''...'',
                          ''Error downloading '' @ filename @ '': '' @ str_exn x]
       \<and> trace (fetch_all e ((filename, url) # entries) w)
           = trace w2 @ [Print (''Error downloading '' @ filename @ '': '' @ str_exn x)]
             @ batch_effects entries
                 (batch_outcomes e entries
                    (print (''Error downloading '' @ filename @ '': '' @ str_exn x) w2))
       \<and> length (batch_outcomes e entries
                    (print (''Error downloading '' @ filename @ '': '' @ str_exn x) w2))
           = length entries"
proof -
  let ?line = "''Error downloading '' @ filename @ '': '' @ str_exn x"
  have w1: "w1 = w\<lparr>trace := trace w @ [Print (''Downloading '' @ filename @ ''...''), HttpGet url]\<rparr>"
    using assms(2) by (auto simp add: requests_get_def print_def)
  have step: "process_entry e (filename, url) w = print ?line w2"
    using assms by (simp add: process_entry_def try_body_def)
  have "console w2 = console w1"
    using assms(4)
    by (auto simp add: write_binary_def console_def split: if_splits write_fault.splits)
  moreover have "trace (fetch_all e ((filename, url) # entries) w)
                = trace (print ?line w2)
                  @ batch_effects entries (batch_outcomes e entries (print ?line w2))"
    unfolding fetch_all.simps step by (rule trace_fetch_all)
  ultimately show ?thesis
    unfolding step by (simp add: w1 console_def length_batch_outcomes)
qed

theorem write_error_caught_witness:
  "console (fetch_all env_ok
              [(''react.js'', ''https://unpkg.com/react@18/umd/react.development.js''),
               (''tailwind.js'', ''https://cdn.tailwindcss.com'')] world_libs_file)
     = [''Downloading react.js...'',
        ''Error downloading react.js: [Errno 20] Not a directory: '' @ repr ''libs/react.js'',
        ''Downloading tailwind.js...'',
        ''Error downloading tailwind.js: [Errno 20] Not a directory: ''
          @ repr ''libs/tailwind.js'']
   \<and> trace (fetch_all env_babel_disk_full
              [(''babel.js'', ''https://unpkg.com/@babel/standalone/babel.min.js''),
               (''tailwind.js'', ''https://cdn.tailwindcss.com'')] world_libs_dir)
     = [Print ''Downloading babel.js...'',
        HttpGet ''https://unpkg.com/@babel/standalone/babel.min.js'',
        WriteFile ''libs/babel.js'' ''a'',
        Print ''Error downloading babel.js: [Errno 28] No space left on device'',
        Print ''Downloading tailwind.js...'',
        HttpGet ''https://cdn.tailwindcss.com'',
        WriteFile ''libs/tailwind.js'' ''abc'',
        Print ''Saved tailwind.js'']"
proof -
  let ?react = "''https://unpkg.com/react@18/umd/react.development.js''"
  let ?babel = "''https://unpkg.com/@babel/standalone/babel.min.js''"
  let ?rest = "[(''tailwind.js'', ''https://cdn.tailwindcss.com'')]"
  let ?r = "\<lparr>status_code = 200, content = ''abc''\<rparr>"
  let ?v1 = "world_libs_file\<lparr>trace := [Print ''Downloading react.js...'', HttpGet ?react]\<rparr>"
  let ?w1 = "world_libs_dir\<lparr>trace := [Print ''Downloading babel.js...'', HttpGet ?babel]\<rparr>"
  let ?w2 = "world_libs_dir\<lparr>fs := (fs world_libs_dir)(''libs/babel.js'' \<mapsto> File ''a''),
                             trace := [Print ''Downloading babel.js...'', HttpGet ?babel,
                                       WriteFile ''libs/babel.js'' ''a'']\<rparr>"
  let ?notdir = "OSError 20 ''Not a directory'' (Some ''libs/react.js'')"
  let ?full = "OSError 28 ''No space left on device'' None"
  have c: "status_code ?r = 200" by simp
  have a1: "\<not> os_path_exists world_libs_file (os_path_join ''libs'' ''react.js'')"
    by (simp add: world_libs_file_def os_path_exists_def os_path_join_def)
  have b1: "requests_get env_ok ?react
              (print (''Downloading '' @ ''react.js'' @ ''...'') world_libs_file)
              = (Returns ?r, ?v1)"
    by (simp add: requests_get_def env_ok_def print_def world_libs_file_def)
  have d1: "write_binary env_ok (os_path_join ''libs'' ''react.js'') (content ?r) ?v1
              = (Some ?notdir, ?v1)"
    by (simp add: write_binary_def world_libs_file_def os_path_join_def dirname_def)
  have later1: "batch_outcomes env_ok ?rest
                  (print (''Error downloading '' @ ''react.js'' @ '': '' @ str_exn ?notdir) ?v1)
                = [WriteError (OSError 20 ''Not a directory'' (Some ''libs/tailwind.js'')) None]"
    by (simp add: entry_outcome_def answered_def env_ok_def world_libs_file_def call_defs)
  have a2: "\<not> os_path_exists world_libs_dir (os_path_join ''libs'' ''babel.js'')"
    by (simp add: world_libs_dir_def os_path_exists_def os_path_join_def)
  have b2: "requests_get env_babel_disk_full ?babel
              (print (''Downloading '' @ ''babel.js'' @ ''...'') world_libs_dir)
              = (Returns ?r, ?w1)"
    by (simp add: requests_get_def env_babel_disk_full_def print_def world_libs_dir_def)
  have d2: "write_binary env_babel_disk_full (os_path_join ''libs'' ''babel.js'') (content ?r) ?w1
              = (Some ?full, ?w2)"
    by (simp add: write_binary_def env_babel_disk_full_def world_libs_dir_def os_path_join_def
        dirname_def)
  have later2: "batch_outcomes env_babel_disk_full ?rest
                  (print (''Error downloading '' @ ''babel.js'' @ '': '' @ str_exn ?full) ?w2)
                = [Saved ''abc'']"
    by (simp add: entry_outcome_def answered_def env_babel_disk_full_def world_libs_dir_def
        call_defs)
  have t1: "trace (fetch_all env_ok ((''react.js'', ?react) # ?rest) world_libs_file)
              = trace ?v1
                @ [Print (''Error downloading '' @ ''react.js'' @ '': '' @ str_exn ?notdir)]
                @ batch_effects ?rest
                    [WriteError (OSError 20 ''Not a directory'' (Some ''libs/tailwind.js'')) None]"
    using write_error_caught [OF a1 b1 c d1, of ?rest] unfolding later1 by blast
  have t2: "trace (fetch_all env_babel_disk_full ((''babel.js'', ?babel) # ?rest) world_libs_dir)
              = trace ?w2
                @ [Print (''Error downloading '' @ ''babel.js'' @ '': '' @ str_exn ?full)]
                @ batch_effects ?rest [Saved ''abc'']"
    using write_error_caught [OF a2 b2 c d2, of ?rest] unfolding later2 by blast
  show ?thesis
    unfolding console_def t1 t2
    by (simp add: world_libs_file_def world_libs_dir_def str_nat.simps os_path_join_def)
qed

subsection \<open>The directory\<close>

lemma ensure_directory_present:
  "os_path_exists w ''libs'' \<Longrightarrow> ensure_directory e w = Inr w"
  by (simp add: ensure_directory_def)

lemma ensure_directory_made:
  "\<not> os_path_exists w ''libs'' \<Longrightarrow> mkdir_fault e (requests w) ''libs'' = None \<Longrightarrow>
     ensure_directory e w
       = Inr (w\<lparr>fs := (fs w)(''libs'' \<mapsto> Dir),
                trace := trace w @ [MakeDirs ''libs'', Print ''Created directory: libs/'']\<rparr>)"
  by (simp add: ensure_directory_def os_makedirs_def print_def)

lemma ensure_directory_raises:
  "\<not> os_path_exists w ''libs'' \<Longrightarrow> mkdir_fault e (requests w) ''libs'' = Some x \<Longrightarrow>
     ensure_directory e w = Inl x"
  by (simp add: ensure_directory_def os_makedirs_def)

lemma ensure_directory_done:
  assumes "ensure_directory e w = Inr w0"
  shows "os_path_exists w0 ''libs''"
    and "requests w0 = requests w"
    and "p \<noteq> ''libs'' \<Longrightarrow> fs w0 p = fs w p"
proof -
  have "(os_path_exists w ''libs'' \<and> w0 = w)
        \<or> (\<not> os_path_exists w ''libs''
            \<and> w0 = w\<lparr>fs := (fs w)(''libs'' \<mapsto> Dir),
                       trace := trace w @ [MakeDirs ''libs'', Print ''Created directory: libs/'']\<rparr>)"
    using assms
    by (auto simp add: ensure_directory_def os_makedirs_def print_def
        split: if_splits option.splits)
  then show "os_path_exists w0 ''libs''" and "requests w0 = requests w"
    and "p \<noteq> ''libs'' \<Longrightarrow> fs w0 p = fs w p"
    by (auto simp add: os_path_exists_def requests_def)
qed

text \<open>
  C7, as amended. When the path \<^verbatim>\<open>libs\<close> exists, as a directory or as anything else,
  the step returns the world unchanged and raises nothing. When the path does not
  exist and \<^verbatim>\<open>os.makedirs\<close> does not fail, the step makes the directory and logs the
  creation; when \<^verbatim>\<open>os.makedirs\<close> fails, its exception leaves the step. After a step
  that has succeeded the path exists, and the step run again, in whatever environment,
  returns that same world and raises nothing.
\<close>

theorem ensure_directory_idempotent:
  "(os_path_exists w ''libs'' \<longrightarrow> ensure_directory e w = Inr w)
   \<and> (\<not> os_path_exists w ''libs'' \<and> mkdir_fault e (requests w) ''libs'' = None \<longrightarrow>
        ensure_directory e w
          = Inr (w\<lparr>fs := (fs w)(''libs'' \<mapsto> Dir),
                   trace := trace w @ [MakeDirs ''libs'', Print ''Created directory: libs/'']\<rparr>))
   \<and> (\<not> os_path_exists w ''libs'' \<and> mkdir_fault e (requests w) ''libs'' = Some x \<longrightarrow>
        ensure_directory e w = Inl x)
   \<and> (ensure_directory e w = Inr w0 \<longrightarrow>
        os_path_exists w0 ''libs'' \<and> ensure_directory e' w0 = Inr w0)"
  using ensure_directory_present ensure_directory_made ensure_directory_raises
    ensure_directory_done(1)
  by blast

theorem ensure_directory_idempotent_witness:
  "ensure_directory env_ok world_empty
     = Inr \<lparr>fs = [''libs'' \<mapsto> Dir],
            trace = [MakeDirs ''libs'', Print ''Created directory: libs/'']\<rparr>
   \<and> ensure_directory env_404
        \<lparr>fs = [''libs'' \<mapsto> Dir],
         trace = [MakeDirs ''libs'', Print ''Created directory: libs/'']\<rparr>
     = Inr \<lparr>fs = [''libs'' \<mapsto> Dir],
            trace = [MakeDirs ''libs'', Print ''Created directory: libs/'']\<rparr>
   \<and> ensure_directory env_readonly world_empty
     = Inl (OSError 13 ''Permission denied'' (Some ''libs''))
   \<and> ensure_directory env_readonly world_libs_file = Inr world_libs_file"
proof -
  let ?made = "\<lparr>fs = [''libs'' \<mapsto> Dir],
                 trace = [MakeDirs ''libs'', Print ''Created directory: libs/'']\<rparr>"
  let ?denied = "OSError 13 ''Permission denied'' (Some ''libs'')"
  have absent: "\<not> os_path_exists world_empty ''libs''"
    by (simp add: os_path_exists_def world_empty_def)
  have present: "os_path_exists world_libs_file ''libs''"
    by (simp add: os_path_exists_def world_libs_file_def)
  have ok: "mkdir_fault env_ok (requests world_empty) ''libs'' = None"
    by (simp add: env_ok_def)
  have ro: "mkdir_fault env_readonly (requests world_empty) ''libs'' = Some ?denied"
    by (simp add: env_readonly_def)
  have made: "ensure_directory env_ok world_empty = Inr ?made"
    using ensure_directory_idempotent [of world_empty env_ok ?denied ?made env_404] absent ok
    by (simp add: world_empty_def)
  have again: "ensure_directory env_404 ?made = Inr ?made"
    using ensure_directory_idempotent [of world_empty env_ok ?denied ?made env_404] made
    by blast
  have denied: "ensure_directory env_readonly world_empty = Inl ?denied"
    using ensure_directory_idempotent [of world_empty env_readonly ?denied ?made env_404]
      absent ro
    by blast
  have noop: "ensure_directory env_readonly world_libs_file = Inr world_libs_file"
    using ensure_directory_idempotent [of world_libs_file env_readonly ?denied ?made env_404]
      present
    by blast
  from made again denied noop show ?thesis by blast
qed

text \<open>
  The step does not always leave a directory behind. Where \<^verbatim>\<open>libs\<close> is a regular
  file there is no directory, and the step returns the world as it was, with nothing
  made and nothing logged. Where the working directory is not writable the path is
  absent, and the step raises and makes nothing.
\<close>

theorem ensure_directory_counterexample:
  "fs world_libs_file ''libs'' = Some (File [])
   \<and> ensure_directory env_ok world_libs_file = Inr world_libs_file
   \<and> trace world_libs_file = []
   \<and> \<not> os_path_exists world_empty ''libs''
   \<and> ensure_directory env_readonly world_empty
       = Inl (OSError 13 ''Permission denied'' (Some ''libs''))"
  by (simp add: ensure_directory_def os_makedirs_def os_path_exists_def requests_def
      world_libs_file_def world_empty_def env_ok_def env_readonly_def)

subsection \<open>The whole run\<close>

lemma exists_process_entry_mono:
  "os_path_exists w p \<Longrightarrow> os_path_exists (process_entry e entry w) p"
  by (simp add: os_path_exists_def fs_process_entry_existing)

lemma exists_fetch_all_mono:
  "os_path_exists w p \<Longrightarrow> os_path_exists (fetch_all e entries w) p"
  by (simp add: os_path_exists_def fs_fetch_all_existing)

lemma saved_target_exists:
  assumes "\<not> os_path_exists w (os_path_join ''libs'' filename)"
    and "requests_get e url (print (''Downloading '' @ filename @ ''...'') w) = (Returns r, w1)"
    and "status_code r = 200"
    and "write_binary e (os_path_join ''libs'' filename) (content r) w1 = (None, w2)"
  shows "os_path_exists (process_entry e (filename, url) w) (os_path_join ''libs'' filename)"
proof -
  have "process_entry e (filename, url) w = print (''Saved '' @ filename) w2"
    using assms by (simp add: process_entry_def try_body_def)
  moreover have "fs w2 (os_path_join ''libs'' filename) = Some (File (content r))"
    using write_binary_ok [OF assms(4)] by simp
  ultimately show ?thesis by (simp add: os_path_exists_def)
qed

lemma download_libs_completed:
  "ensure_directory e w = Inr w0 \<Longrightarrow>
     download_libs e w
       = Inr (print closing_message
                (fetch_all e LIBRARIES (print ''Starting download of dependencies...'' w0)))"
  by (simp add: download_libs_def)

lemma main_completed:
  "ensure_directory e w = Inr w0 \<Longrightarrow>
     main e w
       = (0, print closing_message
               (fetch_all e LIBRARIES (print ''Starting download of dependencies...'' w0)))"
  by (simp add: main_def download_libs_completed)

text \<open>
  C3. Take any entry of \<^verbatim>\<open>LIBRARIES\<close> and the world \<open>w1\<close> in which the loop reaches
  it. If its target exists there (the entry is skipped), or the GET returns status 200
  and the open and the write raise nothing (the entry is saved), then the run
  completes and the target exists in the world it leaves.
\<close>

theorem unfailed_entry_exists_after_run:
  assumes "ensure_directory e w = Inr w0"
    and "LIBRARIES = pre @ (filename, url) # post"
    and "w1 = fetch_all e pre (print ''Starting download of dependencies...'' w0)"
    and "os_path_exists w1 (os_path_join ''libs'' filename)
         \<or> (\<exists>r w2 w3.
               requests_get e url (print (''Downloading '' @ filename @ ''...'') w1) = (Returns r, w2)
               \<and> status_code r = 200
               \<and> write_binary e (os_path_join ''libs'' filename) (content r) w2 = (None, w3))"
  shows "\<exists>w'. download_libs e w = Inr w' \<and> os_path_exists w' (os_path_join ''libs'' filename)"
proof -
  let ?target = "os_path_join ''libs'' filename"
  have after: "os_path_exists (process_entry e (filename, url) w1) ?target"
  proof (cases "os_path_exists w1 ?target")
    case True
    then show ?thesis by (rule exists_process_entry_mono)
  next
    case False
    with assms(4) obtain r w2 w3 where
      "requests_get e url (print (''Downloading '' @ filename @ ''...'') w1) = (Returns r, w2)"
      "status_code r = 200"
      "write_binary e ?target (content r) w2 = (None, w3)"
      by blast
    with False show ?thesis by (rule saved_target_exists)
  qed
  have "fetch_all e LIBRARIES (print ''Starting download of dependencies...'' w0)
          = fetch_all e post (process_entry e (filename, url) w1)"
    unfolding assms(2) assms(3) fetch_all_append by simp
  with after have "os_path_exists
      (fetch_all e LIBRARIES (print ''Starting download of dependencies...'' w0)) ?target"
    by (simp add: exists_fetch_all_mono)
  then show ?thesis
    by (simp add: download_libs_def assms(1))
qed

theorem unfailed_entry_exists_after_run_witness:
  "os_path_exists (snd (main env_ok world_empty)) ''libs/react.js''
   \<and> os_path_exists (snd (main env_404 world_react_present)) ''libs/react.js''"
proof -
  let ?url = "''https://unpkg.com/react@18/umd/react.development.js''"
  let ?rest = "[(''react-dom.js'', ''https://unpkg.com/react-dom@18/umd/react-dom.development.js''),
      (''babel.js'', ''https://unpkg.com/@babel/standalone/babel.min.js''),
      (''tailwind.js'', ''https://cdn.tailwindcss.com'')]"
  let ?w0 = "world_empty\<lparr>fs := [''libs'' \<mapsto> Dir],
                          trace := [MakeDirs ''libs'', Print ''Created directory: libs/'']\<rparr>"
  let ?w1 = "print ''Starting download of dependencies...'' ?w0"
  let ?r = "\<lparr>status_code = 200, content = ''abc''\<rparr>"
  let ?w2 = "?w1\<lparr>trace := trace ?w1 @ [Print ''Downloading react.js...'', HttpGet ?url]\<rparr>"
  let ?w3 = "?w2\<lparr>fs := (fs ?w2)(''libs/react.js'' \<mapsto> File ''abc''),
                  trace := trace ?w2 @ [WriteFile ''libs/react.js'' ''abc'']\<rparr>"
  have j: "os_path_join ''libs'' ''react.js'' = ''libs/react.js''"
    by (simp add: os_path_join_def)
  have l: "LIBRARIES = [] @ (''react.js'', ?url) # ?rest" by (simp add: LIBRARIES_def)
  have a0: "ensure_directory env_ok world_empty = Inr ?w0"
    by (simp add: ensure_directory_made os_path_exists_def world_empty_def env_ok_def)
  have a1: "?w1 = fetch_all env_ok [] ?w1" by simp
  have g: "requests_get env_ok ?url (print (''Downloading '' @ ''react.js'' @ ''...'') ?w1)
             = (Returns ?r, ?w2)"
    by (simp add: requests_get_def env_ok_def print_def world_empty_def)
  have wr: "write_binary env_ok (os_path_join ''libs'' ''react.js'') (content ?r) ?w2 = (None, ?w3)"
    by (simp add: write_binary_def env_ok_def world_empty_def j dirname_def print_def)
  have saved: "os_path_exists ?w1 (os_path_join ''libs'' ''react.js'')
      \<or> (\<exists>r w2 w3.
            requests_get env_ok ?url (print (''Downloading '' @ ''react.js'' @ ''...'') ?w1) = (Returns r, w2)
            \<and> status_code r = 200
            \<and> write_binary env_ok (os_path_join ''libs'' ''react.js'') (content r) w2 = (None, w3))"
    using g wr by (intro disjI2 exI [of _ ?r] exI [of _ ?w2] exI [of _ ?w3]) simp
  let ?v1 = "print ''Starting download of dependencies...'' world_react_present"
  have b0: "ensure_directory env_404 world_react_present = Inr world_react_present"
    by (simp add: ensure_directory_present os_path_exists_def world_react_present_def)
  have b1: "?v1 = fetch_all env_404 [] ?v1" by simp
  have skipped: "os_path_exists ?v1 (os_path_join ''libs'' ''react.js'')
      \<or> (\<exists>r w2 w3.
            requests_get env_404 ?url (print (''Downloading '' @ ''react.js'' @ ''...'') ?v1) = (Returns r, w2)
            \<and> status_code r = 200
            \<and> write_binary env_404 (os_path_join ''libs'' ''react.js'') (content r) w2 = (None, w3))"
    by (rule disjI1) (simp add: j os_path_exists_def world_react_present_def)
  from unfailed_entry_exists_after_run [OF a0 l a1 saved]
       unfailed_entry_exists_after_run [OF b0 l b1 skipped]
  show ?thesis by (auto simp add: main_def j)
qed

text \<open>
  C6, as amended. Once the directory step has not raised, whatever the environment
  answers and whatever the filesystem holds, the run returns and the exit status is 0.
  The trace of the run after the directory step is the starting line, then the effects
  of the entries of \<^verbatim>\<open>LIBRARIES\<close> in their order, one outcome for each entry, then the
  closing message.
\<close>

theorem run_always_completes:
  assumes "ensure_directory e w = Inr w0"
  shows "\<exists>w'. download_libs e w = Inr w' \<and> main e w = (0, w')
          \<and> trace w'
              = trace w0 @ [Print ''Starting download of dependencies...'']
                @ batch_effects LIBRARIES
                    (batch_outcomes e LIBRARIES
                       (print ''Starting download of dependencies...'' w0))
                @ [Print closing_message]
          \<and> length (batch_outcomes e LIBRARIES
                       (print ''Starting download of dependencies...'' w0))
              = length LIBRARIES"
proof -
  let ?ws = "print ''Starting download of dependencies...'' w0"
  let ?w' = "print closing_message (fetch_all e LIBRARIES ?ws)"
  have d: "download_libs e w = Inr ?w'" using assms by (rule download_libs_completed)
  have m: "main e w = (0, ?w')" using assms by (rule main_completed)
  have "trace ?w' = trace ?ws @ batch_effects LIBRARIES (batch_outcomes e LIBRARIES ?ws)
                      @ [Print closing_message]"
    by (simp add: trace_fetch_all)
  then have tr: "trace ?w'
              = trace w0 @ [Print ''Starting download of dependencies...'']
                @ batch_effects LIBRARIES (batch_outcomes e LIBRARIES ?ws)
                @ [Print closing_message]"
    by simp
  from d m tr length_batch_outcomes [of e LIBRARIES ?ws] show ?thesis by blast
qed

text \<open>
  A run in which the first entry is skipped, the second saved, the third answered with
  status 404 and the fourth saved.
\<close>

theorem run_always_completes_witness:
  "fst (main env_babel_404 world_react_present) = 0
   \<and> console (snd (main env_babel_404 world_react_present))
       = [''Starting download of dependencies...'',
          ''react.js already exists. Skipping.'',
          ''Downloading react-dom.js...'', ''Saved react-dom.js'',
          ''Downloading babel.js...'', ''Failed to download babel.js: Status 404'',
          ''Downloading tailwind.js...'', ''Saved tailwind.js'',
          closing_message]"
proof -
  let ?ws = "print ''Starting download of dependencies...'' world_react_present"
  have a: "ensure_directory env_babel_404 world_react_present = Inr world_react_present"
    by (simp add: ensure_directory_present os_path_exists_def world_react_present_def)
  have outs: "batch_outcomes env_babel_404 LIBRARIES ?ws
                = [Skipped, Saved ''abc'', HttpError 404, Saved ''abc'']"
    by (simp add: LIBRARIES_def entry_outcome_def after_entry_def answered_def
        env_babel_404_def world_react_present_def call_defs)
  have s: "str_int 404 = ''404''" by (simp add: str_int_def str_nat.simps)
  obtain w' where m: "main env_babel_404 world_react_present = (0, w')"
    and tr: "trace w' = trace world_react_present @ [Print ''Starting download of dependencies...'']
                @ batch_effects LIBRARIES (batch_outcomes env_babel_404 LIBRARIES ?ws)
                @ [Print closing_message]"
    using run_always_completes [OF a] by blast
  have "console w'
       = [''Starting download of dependencies...'',
          ''react.js already exists. Skipping.'',
          ''Downloading react-dom.js...'', ''Saved react-dom.js'',
          ''Downloading babel.js...'', ''Failed to download babel.js: Status 404'',
          ''Downloading tailwind.js...'', ''Saved tailwind.js'',
          closing_message]"
    unfolding console_def tr outs
    by (simp add: LIBRARIES_def world_react_present_def s)
  with m show ?thesis by simp
qed

text \<open>
  Without that condition the run does not always complete: in a working directory
  where nothing can be created the exception of \<^verbatim>\<open>os.makedirs\<close> leaves
  \<^verbatim>\<open>download_libs\<close>, the exit status is 1, and nothing has been printed, neither a
  line about an entry nor the closing message.
\<close>

theorem run_always_completes_counterexample:
  "download_libs env_readonly world_empty
     = Inl (OSError 13 ''Permission denied'' (Some ''libs''))
   \<and> fst (main env_readonly world_empty) = 1
   \<and> trace (snd (main env_readonly world_empty)) = []"
  by (simp add: main_def download_libs_def ensure_directory_def os_makedirs_def
      os_path_exists_def requests_def world_empty_def env_readonly_def)

lemma requests_process_entry:
  "requests (process_entry e entry w)
     = requests w @ (if os_path_exists w (os_path_join ''libs'' (fst entry)) then []
                     else [snd entry])"
  by (cases "entry_outcome e entry w")
     (auto simp add: process_entry_outcome after_entry_def requests_def entry_outcome_def
        Let_def split: if_splits http_result.splits prod.splits option.splits node.splits)

lemma exists_process_entry_other:
  "p \<noteq> os_path_join ''libs'' (fst entry) \<Longrightarrow>
     os_path_exists (process_entry e entry w) p = os_path_exists w p"
  by (simp add: os_path_exists_def fs_process_entry_other)

lemma requests_fetch_all:
  "distinct (map fst entries) \<Longrightarrow>
     requests (fetch_all e entries w)
       = requests w @ map snd (filter (\<lambda>entry. \<not> os_path_exists w (os_path_join ''libs'' (fst entry)))
                                 entries)"
proof (induction entries arbitrary: w)
  case Nil
  show ?case by simp
next
  case (Cons entry entries)
  let ?w = "process_entry e entry w"
  have same: "filter (\<lambda>x. \<not> os_path_exists ?w (os_path_join ''libs'' (fst x))) entries
                = filter (\<lambda>x. \<not> os_path_exists w (os_path_join ''libs'' (fst x))) entries"
  proof (rule filter_cong [OF refl])
    fix x assume "x \<in> set entries"
    then have "fst x \<in> fst ` set entries" by (rule imageI)
    moreover from Cons.prems have "fst entry \<notin> fst ` set entries" by simp
    ultimately have "fst x \<noteq> fst entry" by metis
    then have "os_path_join ''libs'' (fst x) \<noteq> os_path_join ''libs'' (fst entry)"
      using os_path_join_libs_inject by blast
    then show "(\<not> os_path_exists ?w (os_path_join ''libs'' (fst x)))
                 = (\<not> os_path_exists w (os_path_join ''libs'' (fst x)))"
      by (simp add: exists_process_entry_other)
  qed
  from Cons.prems have "distinct (map fst entries)" by simp
  then have "requests (fetch_all e entries ?w)
               = requests ?w @ map snd (filter (\<lambda>x. \<not> os_path_exists ?w (os_path_join ''libs'' (fst x)))
                                          entries)"
    by (rule Cons.IH)
  then show ?case
    by (simp add: same requests_process_entry)
qed

lemma distinct_LIBRARIES: "distinct (map fst LIBRARIES)"
  by (simp add: LIBRARIES_def)

lemma requests_download_libs:
  assumes "download_libs e w = Inr w'"
  shows "requests w'
           = requests w @ map snd (filter (\<lambda>entry. \<not> os_path_exists w (os_path_join ''libs'' (fst entry)))
                                     LIBRARIES)"
    and "os_path_exists w' ''libs''"
proof -
  obtain w0 where w0: "ensure_directory e w = Inr w0"
    using assms by (cases "ensure_directory e w") (simp_all add: download_libs_def)
  let ?ws = "print ''Starting download of dependencies...'' w0"
  have w': "w' = print closing_message (fetch_all e LIBRARIES ?ws)"
    using assms download_libs_completed [OF w0] by simp
  have r: "requests ?ws = requests w"
    using ensure_directory_done(2) [OF w0] by simp
  have x: "os_path_exists ?ws (os_path_join ''libs'' b) = os_path_exists w (os_path_join ''libs'' b)"
    for b
    using ensure_directory_done(3) [OF w0, of "os_path_join ''libs'' b"]
      os_path_join_libs_neq [of b]
    by (simp add: os_path_exists_def)
  have "requests w' = requests (fetch_all e LIBRARIES ?ws)"
    unfolding w' by simp
  also have "\<dots> = requests ?ws @ map snd (filter (\<lambda>entry. \<not> os_path_exists ?ws (os_path_join ''libs'' (fst entry))) LIBRARIES)"
    using distinct_LIBRARIES by (rule requests_fetch_all)
  finally show "requests w'
           = requests w @ map snd (filter (\<lambda>entry. \<not> os_path_exists w (os_path_join ''libs'' (fst entry)))
                                     LIBRARIES)"
    unfolding r x .
  have "os_path_exists ?ws ''libs''"
    using ensure_directory_done(1) [OF w0] by simp
  then show "os_path_exists w' ''libs''"
    unfolding w' by (simp add: exists_fetch_all_mono)
qed

text \<open>
  C8, as amended. After a first run that has completed, a second run started in the
  world the first one left completes as well, whatever the network and the disk do in
  either run, and it requests exactly the entries whose target is absent in that
  world, in the order of \<^verbatim>\<open>LIBRARIES\<close>. So it performs no network call when every
  target exists after the first run, as it does when every entry was skipped or saved;
  an entry whose failed fetch left its target absent is requested again.
\<close>

theorem second_run_requests:
  assumes "download_libs e1 w = Inr w1"
  shows "\<exists>w2. download_libs e2 w1 = Inr w2
          \<and> requests w2
              = requests w1
                @ map snd (filter (\<lambda>entry. \<not> os_path_exists w1 (os_path_join ''libs'' (fst entry)))
                             LIBRARIES)
          \<and> ((\<forall>entry \<in> set LIBRARIES. os_path_exists w1 (os_path_join ''libs'' (fst entry)))
               \<longrightarrow> requests w2 = requests w1)"
proof -
  have "os_path_exists w1 ''libs''"
    using assms by (rule requests_download_libs(2))
  then have "ensure_directory e2 w1 = Inr w1" by (rule ensure_directory_present)
  then obtain w2 where d2: "download_libs e2 w1 = Inr w2"
    using download_libs_completed by blast
  have r: "requests w2
              = requests w1
                @ map snd (filter (\<lambda>entry. \<not> os_path_exists w1 (os_path_join ''libs'' (fst entry)))
                             LIBRARIES)"
    using d2 by (rule requests_download_libs(1))
  have "requests w2 = requests w1"
    if "\<forall>entry \<in> set LIBRARIES. os_path_exists w1 (os_path_join ''libs'' (fst entry))"
  proof -
    from that have
      "filter (\<lambda>entry. \<not> os_path_exists w1 (os_path_join ''libs'' (fst entry))) LIBRARIES = []"
      by (simp add: filter_empty_conv)
    with r show ?thesis by simp
  qed
  with d2 r show ?thesis by blast
qed

lemma run_all_404:
  "download_libs env_404 world_empty
     = Inr \<lparr>fs = [''libs'' \<mapsto> Dir],
            trace =
              [MakeDirs ''libs'', Print ''Created directory: libs/'',
               Print ''Starting download of dependencies...'']
              @ batch_effects LIBRARIES [HttpError 404, HttpError 404, HttpError 404, HttpError 404]
              @ [Print closing_message]\<rparr>"
  by (simp add: download_libs_def ensure_directory_def os_makedirs_def process_entry_outcome
      LIBRARIES_def entry_outcome_def after_entry_def answered_def env_404_def
      world_empty_def call_defs)

lemma run_all_ok:
  "download_libs env_ok world_empty
     = Inr \<lparr>fs = [''libs'' \<mapsto> Dir, ''libs/react.js'' \<mapsto> File ''abc'',
                  ''libs/react-dom.js'' \<mapsto> File ''abc'', ''libs/babel.js'' \<mapsto> File ''abc'',
                  ''libs/tailwind.js'' \<mapsto> File ''abc''],
            trace =
              [MakeDirs ''libs'', Print ''Created directory: libs/'',
               Print ''Starting download of dependencies...'']
              @ batch_effects LIBRARIES [Saved ''abc'', Saved ''abc'', Saved ''abc'', Saved ''abc'']
              @ [Print closing_message]\<rparr>"
  by (simp add: download_libs_def ensure_directory_def os_makedirs_def process_entry_outcome
      LIBRARIES_def entry_outcome_def after_entry_def answered_def env_ok_def
      world_empty_def call_defs)

theorem second_run_requests_witness:
  "requests (snd (main env_404 (snd (main env_ok world_empty))))
     = requests (snd (main env_ok world_empty))"
proof -
  let ?w1 = "\<lparr>fs = [''libs'' \<mapsto> Dir, ''libs/react.js'' \<mapsto> File ''abc'',
                  ''libs/react-dom.js'' \<mapsto> File ''abc'', ''libs/babel.js'' \<mapsto> File ''abc'',
                  ''libs/tailwind.js'' \<mapsto> File ''abc''],
            trace =
              [MakeDirs ''libs'', Print ''Created directory: libs/'',
               Print ''Starting download of dependencies...'']
              @ batch_effects LIBRARIES [Saved ''abc'', Saved ''abc'', Saved ''abc'', Saved ''abc'']
              @ [Print closing_message]\<rparr>"
  have first: "download_libs env_ok world_empty = Inr ?w1" by (rule run_all_ok)
  have all: "\<forall>entry \<in> set LIBRARIES. os_path_exists ?w1 (os_path_join ''libs'' (fst entry))"
    by (simp add: LIBRARIES_def os_path_exists_def os_path_join_def)
  obtain w2 where "download_libs env_404 ?w1 = Inr w2" and "requests w2 = requests ?w1"
    using second_run_requests [OF first, of env_404] all by blast
  with first show ?thesis by (simp add: main_def)
qed

text \<open>
  Where every GET returns status 404 the first run leaves all four targets absent, and
  the second run issues the same four requests again.
\<close>

theorem second_run_requests_counterexample:
  "requests (snd (main env_404 world_empty)) = map snd LIBRARIES
   \<and> requests (snd (main env_404 (snd (main env_404 world_empty))))
       = map snd LIBRARIES @ map snd LIBRARIES
   \<and> length (map snd LIBRARIES) = 4"
proof -
  let ?w1 = "\<lparr>fs = [''libs'' \<mapsto> Dir],
            trace =
              [MakeDirs ''libs'', Print ''Created directory: libs/'',
               Print ''Starting download of dependencies...'']
              @ batch_effects LIBRARIES [HttpError 404, HttpError 404, HttpError 404, HttpError 404]
              @ [Print closing_message]\<rparr>"
  have first: "snd (main env_404 world_empty) = ?w1"
    by (simp add: main_def run_all_404)
  have r1: "requests ?w1 = map snd LIBRARIES"
    by (simp add: requests_def LIBRARIES_def)
  have ex: "os_path_exists ?w1 ''libs''" by (simp add: os_path_exists_def)
  have "download_libs env_404 ?w1
          = Inr (print closing_message
                   (fetch_all env_404 LIBRARIES
                      (print ''Starting download of dependencies...'' ?w1)))"
    using ex by (simp add: download_libs_completed ensure_directory_present)
  then have "requests (snd (main env_404 ?w1))
        = requests ?w1 @ map snd (filter (\<lambda>entry. \<not> os_path_exists ?w1 (os_path_join ''libs'' (fst entry)))
                                     LIBRARIES)"
    using requests_download_libs(1) [of env_404 ?w1] by (simp add: main_def)
  also have "\<dots> = map snd LIBRARIES @ map snd LIBRARIES"
    unfolding r1 by (simp add: LIBRARIES_def os_path_exists_def os_path_join_def)
  finally show ?thesis
    unfolding first r1 by (simp add: LIBRARIES_def)
qed

lemma take_LIBRARIES:
  "take 1 LIBRARIES = [LIBRARIES ! 0]"
  "take 2 LIBRARIES = [LIBRARIES ! 0, LIBRARIES ! 1]"
  "take 3 LIBRARIES = [LIBRARIES ! 0, LIBRARIES ! 1, LIBRARIES ! 2]"
  "LIBRARIES = [LIBRARIES ! 0, LIBRARIES ! 1, LIBRARIES ! 2, LIBRARIES ! 3]"
  by (simp_all add: LIBRARIES_def)

text \<open>
  C9. The names of \<^verbatim>\<open>LIBRARIES\<close> in their order, and the trace of the loop, entry by
  entry. The first entry adds the effects of its outcome to the trace before the loop;
  each later entry adds the effects of its outcome, in the world its predecessors
  left, to the trace after its predecessors. The effects of an outcome are never
  empty, and all of them are effects of the entry the outcome belongs to: lines about
  its file name, the GET of its URL, a write to its target.
\<close>

theorem entries_processed_in_order:
  "map fst LIBRARIES = [''react.js'', ''react-dom.js'', ''babel.js'', ''tailwind.js'']
   \<and> trace (fetch_all e (take 1 LIBRARIES) w)
       = trace w @ outcome_effects (LIBRARIES ! 0) (entry_outcome e (LIBRARIES ! 0) w)
   \<and> trace (fetch_all e (take 2 LIBRARIES) w)
       = trace (fetch_all e (take 1 LIBRARIES) w)
         @ outcome_effects (LIBRARIES ! 1)
             (entry_outcome e (LIBRARIES ! 1) (fetch_all e (take 1 LIBRARIES) w))
   \<and> trace (fetch_all e (take 3 LIBRARIES) w)
       = trace (fetch_all e (take 2 LIBRARIES) w)
         @ outcome_effects (LIBRARIES ! 2)
             (entry_outcome e (LIBRARIES ! 2) (fetch_all e (take 2 LIBRARIES) w))
   \<and> trace (fetch_all e LIBRARIES w)
       = trace (fetch_all e (take 3 LIBRARIES) w)
         @ outcome_effects (LIBRARIES ! 3)
             (entry_outcome e (LIBRARIES ! 3) (fetch_all e (take 3 LIBRARIES) w))
   \<and> (\<forall>entry out. outcome_effects entry out \<noteq> []
                   \<and> list_all (entry_effect entry) (outcome_effects entry out))"
proof -
  let ?w1 = "process_entry e (LIBRARIES ! 0) w"
  let ?w2 = "process_entry e (LIBRARIES ! 1) ?w1"
  let ?w3 = "process_entry e (LIBRARIES ! 2) ?w2"
  let ?w4 = "process_entry e (LIBRARIES ! 3) ?w3"
  have f1: "fetch_all e (take 1 LIBRARIES) w = ?w1" unfolding take_LIBRARIES(1) by simp
  have f2: "fetch_all e (take 2 LIBRARIES) w = ?w2" unfolding take_LIBRARIES(2) by simp
  have f3: "fetch_all e (take 3 LIBRARIES) w = ?w3" unfolding take_LIBRARIES(3) by simp
  have f4: "fetch_all e LIBRARIES w = ?w4"
    by (subst take_LIBRARIES(4)) simp
  have names: "map fst LIBRARIES = [''react.js'', ''react-dom.js'', ''babel.js'', ''tailwind.js'']"
    by (simp add: LIBRARIES_def)
  have blocks: "\<forall>entry out. outcome_effects entry out \<noteq> []
                   \<and> list_all (entry_effect entry) (outcome_effects entry out)"
    using outcome_effects_nonempty outcome_effects_own by blast
  show ?thesis
    unfolding f1 f2 f3 f4
    using names blocks
      trace_process_entry [of e "LIBRARIES ! 0" w]
      trace_process_entry [of e "LIBRARIES ! 1" ?w1]
      trace_process_entry [of e "LIBRARIES ! 2" ?w2]
      trace_process_entry [of e "LIBRARIES ! 3" ?w3]
    by blast
qed

text \<open>
  With every request answered by status 200 in an empty \<^verbatim>\<open>libs\<close>, the four blocks in
  their order.
\<close>

theorem entries_processed_in_order_witness:
  "trace (fetch_all env_ok LIBRARIES world_libs_dir)
     = [Print ''Downloading react.js...'',
        HttpGet ''https://unpkg.com/react@18/umd/react.development.js'',
        WriteFile ''libs/react.js'' ''abc'', Print ''Saved react.js'',
        Print ''Downloading react-dom.js...'',
        HttpGet ''https://unpkg.com/react-dom@18/umd/react-dom.development.js'',
        WriteFile ''libs/react-dom.js'' ''abc'', Print ''Saved react-dom.js'',
        Print ''Downloading babel.js...'',
        HttpGet ''https://unpkg.com/@babel/standalone/babel.min.js'',
        WriteFile ''libs/babel.js'' ''abc'', Print ''Saved babel.js'',
        Print ''Downloading tailwind.js...'',
        HttpGet ''https://cdn.tailwindcss.com'',
        WriteFile ''libs/tailwind.js'' ''abc'', Print ''Saved tailwind.js'']"
proof -
  let ?e = env_ok
  let ?w = world_libs_dir
  have o1: "entry_outcome ?e (LIBRARIES ! 0) ?w = Saved ''abc''"
    by (simp add: LIBRARIES_def entry_outcome_def answered_def env_ok_def world_libs_dir_def
        call_defs)
  have t1: "trace (fetch_all ?e (take 1 LIBRARIES) ?w)
              = trace ?w @ outcome_effects (LIBRARIES ! 0) (Saved ''abc'')"
    using entries_processed_in_order [of ?e ?w] unfolding o1 by blast
  have w1: "fetch_all ?e (take 1 LIBRARIES) ?w
              = after_entry (LIBRARIES ! 0) (Saved ''abc'') ?w"
    unfolding take_LIBRARIES(1) using o1 by (simp add: process_entry_outcome)
  have o2: "entry_outcome ?e (LIBRARIES ! 1) (fetch_all ?e (take 1 LIBRARIES) ?w) = Saved ''abc''"
    unfolding w1
    by (simp add: LIBRARIES_def entry_outcome_def after_entry_def answered_def env_ok_def
        world_libs_dir_def call_defs)
  have t2: "trace (fetch_all ?e (take 2 LIBRARIES) ?w)
              = trace (fetch_all ?e (take 1 LIBRARIES) ?w)
                @ outcome_effects (LIBRARIES ! 1) (Saved ''abc'')"
    using entries_processed_in_order [of ?e ?w] unfolding o2 by blast
  have w2: "fetch_all ?e (take 2 LIBRARIES) ?w
              = after_entry (LIBRARIES ! 1) (Saved ''abc'')
                  (after_entry (LIBRARIES ! 0) (Saved ''abc'') ?w)"
    unfolding take_LIBRARIES(2) using o1 o2 [unfolded w1]
    by (simp add: process_entry_outcome)
  have o3: "entry_outcome ?e (LIBRARIES ! 2) (fetch_all ?e (take 2 LIBRARIES) ?w) = Saved ''abc''"
    unfolding w2
    by (simp add: LIBRARIES_def entry_outcome_def after_entry_def answered_def env_ok_def
        world_libs_dir_def call_defs)
  have t3: "trace (fetch_all ?e (take 3 LIBRARIES) ?w)
              = trace (fetch_all ?e (take 2 LIBRARIES) ?w)
                @ outcome_effects (LIBRARIES ! 2) (Saved ''abc'')"
    using entries_processed_in_order [of ?e ?w] unfolding o3 by blast
  have w3: "fetch_all ?e (take 3 LIBRARIES) ?w
              = after_entry (LIBRARIES ! 2) (Saved ''abc'')
                  (after_entry (LIBRARIES ! 1) (Saved ''abc'')
                     (after_entry (LIBRARIES ! 0) (Saved ''abc'') ?w))"
    unfolding take_LIBRARIES(3) using o1 o2 [unfolded w1] o3 [unfolded w2]
    by (simp add: process_entry_outcome)
  have o4: "entry_outcome ?e (LIBRARIES ! 3) (fetch_all ?e (take 3 LIBRARIES) ?w) = Saved ''abc''"
    unfolding w3
    by (simp add: LIBRARIES_def entry_outcome_def after_entry_def answered_def env_ok_def
        world_libs_dir_def call_defs)
  have t4: "trace (fetch_all ?e LIBRARIES ?w)
              = trace (fetch_all ?e (take 3 LIBRARIES) ?w)
                @ outcome_effects (LIBRARIES ! 3) (Saved ''abc'')"
    using entries_processed_in_order [of ?e ?w] unfolding o4 by blast
  show ?thesis
    unfolding t4 t3 t2 t1
    by (simp add: LIBRARIES_def world_libs_dir_def os_path_join_def)
qed

end
